theory Spec2Isabelle
  imports Complex_Main
begin

section \<open>Entity store\<close>

text \<open>
  The four Mongoose models of the repository, as records. An \<open>ObjectId\<close> is an opaque
  key, modelled as a natural number; the conversions between an \<open>ObjectId\<close> and its
  hexadecimal string (\<open>toString()\<close>, the casts of Mongoose) are the identity here.
  A collection is the list of its documents in the store's natural order. The
  \<open>updatedAt\<close> stamp that \<open>timestamps: true\<close> maintains is left out: no handler below
  reads it.
\<close>

type_synonym oid = nat

record user =
  u_id :: oid
  username :: string
  email :: string
  password :: string
  name :: string
  bio :: "string option"
  posts :: "oid list"
  friends :: "oid list"
  avatar :: string

record post =
  p_id :: oid
  title :: string
  content :: string
  author :: oid
  likedBy :: "oid list"
  comments :: "oid list"
  createdAt :: int

record comment =
  c_id :: oid
  c_content :: string
  c_author :: oid
  c_post :: oid
  c_likedBy :: "oid list"
  c_createdAt :: int

datatype status = Pending | Accepted | Rejected

text \<open>
  Modelled from the spec: the FriendRequest schema (\<open>models/friendRequest.model.js\<close> is
  required by the friend controller but is not among the sources). The spec gives it a
  sender, a receiver and a status in pending, accepted, rejected, a new request being
  pending.
\<close>

record friendRequest =
  fr_id :: oid
  sender :: oid
  receiver :: oid
  status :: status

record store =
  User :: "user list"
  Post :: "post list"
  Comment :: "comment list"
  FriendRequest :: "friendRequest list"

subsection \<open>Errors\<close>

text \<open>
  Modelled from the spec: the class \<open>AppError\<close> (\<open>util/AppError.js\<close> is required by the
  controllers but is not among the sources), an error made of a message and the HTTP
  status code that the error middleware reads as \<open>err.statusCode\<close>. The spec's NotFound
  is the status 404, its Unauthorized the status 401. The other constructors are the
  JavaScript and Mongoose errors that a handler's \<open>catch\<close> hands to \<open>next\<close>.
  \<open>errStatus\<close> is the status the error-handling middleware answers with
  (\<open>err.statusCode || 500\<close>, and 400 for a validation error).
\<close>

datatype error =
    AppError string nat
  | ReferenceError string
  | TypeError string
  | ValidationError string

fun errStatus :: "error \<Rightarrow> nat" where
  "errStatus (AppError m c) = (if c = 0 then 500 else c)"
| "errStatus (ReferenceError m) = 500"
| "errStatus (TypeError m) = 500"
| "errStatus (ValidationError m) = 400"

subsection \<open>Store primitives\<close>

definition findById :: "('a \<Rightarrow> oid) \<Rightarrow> 'a list \<Rightarrow> oid \<Rightarrow> 'a option" where
  "findById key ds i = find (\<lambda>d. key d = i) ds"

text \<open>\<open>updateOne\<close> and \<open>deleteOne\<close> touch the first matching document only.\<close>

fun updateOne :: "('a \<Rightarrow> bool) \<Rightarrow> ('a \<Rightarrow> 'a) \<Rightarrow> 'a list \<Rightarrow> 'a list" where
  "updateOne P f [] = []"
| "updateOne P f (d # ds) = (if P d then f d # ds else d # updateOne P f ds)"

fun deleteOne :: "('a \<Rightarrow> bool) \<Rightarrow> 'a list \<Rightarrow> 'a list" where
  "deleteOne P [] = []"
| "deleteOne P (d # ds) = (if P d then ds else d # deleteOne P ds)"

definition deleteMany :: "('a \<Rightarrow> bool) \<Rightarrow> 'a list \<Rightarrow> 'a list" where
  "deleteMany P ds = filter (\<lambda>d. \<not> P d) ds"

definition updateMany :: "('a \<Rightarrow> 'a) \<Rightarrow> 'a list \<Rightarrow> 'a list" where
  "updateMany f ds = map f ds"

text \<open>
  \<open>findByIdAndUpdate\<close> returns the document after the update (\<open>new: true\<close>), or nothing
  when no document has the identifier, in which case the collection is left as it was.
  \<open>findByIdAndDelete\<close> returns the document it removed.
\<close>

definition findByIdAndUpdate ::
  "('a \<Rightarrow> oid) \<Rightarrow> ('a \<Rightarrow> 'a) \<Rightarrow> 'a list \<Rightarrow> oid \<Rightarrow> 'a option \<times> 'a list" where
  "findByIdAndUpdate key f ds i =
     (map_option f (findById key ds i), updateOne (\<lambda>d. key d = i) f ds)"

definition findByIdAndDelete :: "('a \<Rightarrow> oid) \<Rightarrow> 'a list \<Rightarrow> oid \<Rightarrow> 'a option \<times> 'a list" where
  "findByIdAndDelete key ds i = (findById key ds i, deleteOne (\<lambda>d. key d = i) ds)"

text \<open>A new document gets an identifier that no document of its collection carries.\<close>

definition newObjectId :: "oid list \<Rightarrow> oid" where
  "newObjectId ids = Suc (fold max ids 0)"

text \<open>The array operators \<open>$addToSet\<close> and \<open>$pull\<close>, and the array methods
  \<open>includes\<close> (here \<open>includes_id\<close>), \<open>push\<close> and \<open>pull\<close> of a Mongoose array.\<close>

definition addToSet :: "oid \<Rightarrow> oid list \<Rightarrow> oid list" where
  "addToSet x xs = (if x \<in> set xs then xs else xs @ [x])"

definition pull :: "oid \<Rightarrow> oid list \<Rightarrow> oid list" where
  "pull x xs = filter (\<lambda>y. y \<noteq> x) xs"

definition includes_id :: "oid list \<Rightarrow> oid \<Rightarrow> bool" where
  "includes_id xs x = (x \<in> set xs)"

definition push :: "oid \<Rightarrow> oid list \<Rightarrow> oid list" where
  "push x xs = xs @ [x]"

section \<open>Like toggle (post controller)\<close>

definition toggleLikePost :: "store \<Rightarrow> oid \<Rightarrow> oid \<Rightarrow> (error + post \<times> string) \<times> store" where
  "toggleLikePost s userId i =
     (case findById p_id (Post s) i of
        None \<Rightarrow> (Inl (AppError ''Post not found'' 404), s)
      | Some post \<Rightarrow>
          let hasLiked = includes_id (likedBy post) userId;
              post' = (if hasLiked then post\<lparr>likedBy := pull userId (likedBy post)\<rparr>
                       else post\<lparr>likedBy := push userId (likedBy post)\<rparr>)
          in (Inr (post', if hasLiked then ''Like removed'' else ''Like added''),
              s\<lparr>Post := updateOne (\<lambda>d. p_id d = p_id post) (\<lambda>_. post') (Post s)\<rparr>))"

definition toggleLikeComment :: "store \<Rightarrow> oid \<Rightarrow> oid \<Rightarrow> (error + comment \<times> string) \<times> store" where
  "toggleLikeComment s userId commentId =
     (case findById c_id (Comment s) commentId of
        None \<Rightarrow> (Inl (AppError ''Comment not found'' 404), s)
      | Some comment \<Rightarrow>
          let hasLiked = includes_id (c_likedBy comment) userId;
              comment' = (if hasLiked then comment\<lparr>c_likedBy := pull userId (c_likedBy comment)\<rparr>
                          else comment\<lparr>c_likedBy := push userId (c_likedBy comment)\<rparr>)
          in (Inr (comment', if hasLiked then ''Like removed'' else ''Like added''),
              s\<lparr>Comment := updateOne (\<lambda>d. c_id d = c_id comment) (\<lambda>_. comment') (Comment s)\<rparr>))"

section \<open>Post controller: ownership\<close>

text \<open>
  The request body of an update is taken as the update it denotes: a function that either
  yields the changed document or the validation error of \<open>runValidators\<close>.
\<close>

definition updatePost ::
  "store \<Rightarrow> oid \<Rightarrow> oid \<Rightarrow> (post \<Rightarrow> error + post) \<Rightarrow> (error + post) \<times> store" where
  "updatePost s userId i body =
     (case findById p_id (Post s) i of
        None \<Rightarrow> (Inl (AppError ''Post not found'' 404), s)
      | Some post \<Rightarrow>
          if author post \<noteq> userId
          then (Inl (AppError ''You are not authorized to update this post'' 401), s)
          else (case body post of
                  Inl e \<Rightarrow> (Inl e, s)
                | Inr updatedPost \<Rightarrow>
                    (Inr updatedPost,
                     s\<lparr>Post := updateOne (\<lambda>d. p_id d = i) (\<lambda>_. updatedPost) (Post s)\<rparr>)))"

definition deletePost :: "store \<Rightarrow> oid \<Rightarrow> oid \<Rightarrow> (error + post) \<times> store" where
  "deletePost s userId i =
     (case findById p_id (Post s) i of
        None \<Rightarrow> (Inl (AppError ''Post not found'' 404), s)
      | Some post \<Rightarrow>
          if author post \<noteq> userId
          then (Inl (AppError ''You are not authorized to delete this post'' 401), s)
          else
            let s1 = s\<lparr>Post := deleteOne (\<lambda>d. p_id d = p_id post) (Post s)\<rparr>;
                s2 = s1\<lparr>User := snd (findByIdAndUpdate u_id
                        (\<lambda>u. u\<lparr>posts := pull (p_id post) (posts u)\<rparr>) (User s1) userId)\<rparr>;
                s3 = s2\<lparr>Comment := deleteMany (\<lambda>c. c_post c = p_id post) (Comment s2)\<rparr>
            in (Inr post, s3))"

definition deleteComment :: "store \<Rightarrow> oid \<Rightarrow> oid \<Rightarrow> oid \<Rightarrow> (error + comment) \<times> store" where
  "deleteComment s userId i commentId =
     (let post = findById p_id (Post s) i;
          comment = findById c_id (Comment s) commentId
      in case comment of
           None \<Rightarrow> (Inl (AppError ''Comment not found'' 404), s)
         | Some c \<Rightarrow>
             (case post of
                None \<Rightarrow> (Inl (AppError ''Comment not found'' 404), s)
              | Some p \<Rightarrow>
                  if c_author c \<noteq> userId
                  then (Inl (AppError ''You are not authorized to update this comment'' 401), s)
                  else
                    let s1 = s\<lparr>Post := snd (findByIdAndUpdate p_id
                            (\<lambda>d. d\<lparr>comments := pull (c_id c) (comments d)\<rparr>) (Post s) (c_post c))\<rparr>;
                        s2 = s1\<lparr>Comment := snd (findByIdAndDelete c_id (Comment s1) commentId)\<rparr>
                    in (Inr c, s2)))"

definition updateComment ::
  "store \<Rightarrow> oid \<Rightarrow> oid \<Rightarrow> (comment \<Rightarrow> error + comment) \<Rightarrow> (error + comment) \<times> store" where
  "updateComment s userId commentId body =
     (case findById c_id (Comment s) commentId of
        None \<Rightarrow> (Inl (AppError ''Comment not found'' 404), s)
      | Some comment \<Rightarrow>
          if c_author comment \<noteq> userId
          then (Inl (AppError ''You are not authorized to update this comment'' 401), s)
          else (case body comment of
                  Inl e \<Rightarrow> (Inl e, s)
                | Inr updatedComment \<Rightarrow>
                    (Inr updatedComment,
                     s\<lparr>Comment := updateOne (\<lambda>d. c_id d = commentId) (\<lambda>_. updatedComment)
                                   (Comment s)\<rparr>)))"

section \<open>Friend controller\<close>

text \<open>
  \<open>receiver\<close> is read from the request body: \<open>None\<close> stands for a missing or empty
  value, which JavaScript's \<open>!receiver\<close> rejects. When the sender has no User
  document, \<open>user.friends\<close> throws a TypeError, which the handler's \<open>catch\<close> passes on.
\<close>

definition sendFriendRequest ::
  "store \<Rightarrow> oid \<Rightarrow> oid option \<Rightarrow> (error + friendRequest \<times> string) \<times> store" where
  "sendFriendRequest s userId body_receiver =
     (case body_receiver of
        None \<Rightarrow> (Inl (AppError ''Reciever not found'' 404), s)
      | Some r \<Rightarrow>
          if r = userId
          then (Inl (AppError ''You cannot send a friend request to yourself'' 400), s)
          else (case findById u_id (User s) userId of
                  None \<Rightarrow> (Inl (TypeError ''Cannot read properties of null''), s)
                | Some user \<Rightarrow>
                    if includes_id (friends user) r
                    then (Inl (AppError ''You are already friends'' 400), s)
                    else
                      let friendRequest =
                            \<lparr>fr_id = newObjectId (map fr_id (FriendRequest s)),
                             sender = u_id user, receiver = r, status = Pending\<rparr>
                      in (Inr (friendRequest, ''Friend request sent''),
                          s\<lparr>FriendRequest := FriendRequest s @ [friendRequest]\<rparr>)))"

definition acceptFriendRequest ::
  "store \<Rightarrow> oid \<Rightarrow> (error + friendRequest \<times> string) \<times> store" where
  "acceptFriendRequest s i =
     (let (friendRequest, frs) =
            findByIdAndUpdate fr_id (\<lambda>r. r\<lparr>status := Accepted\<rparr>) (FriendRequest s) i;
          s1 = s\<lparr>FriendRequest := frs\<rparr>
      in case friendRequest of
           None \<Rightarrow> (Inl (AppError ''Friend request not found'' 404), s1)
         | Some fr \<Rightarrow>
             let s2 = s1\<lparr>User := snd (findByIdAndUpdate u_id
                        (\<lambda>u. u\<lparr>friends := addToSet (receiver fr) (friends u)\<rparr>)
                        (User s1) (sender fr))\<rparr>;
                 s3 = s2\<lparr>User := snd (findByIdAndUpdate u_id
                        (\<lambda>u. u\<lparr>friends := addToSet (sender fr) (friends u)\<rparr>)
                        (User s2) (receiver fr))\<rparr>
             in (Inr (fr, ''Accepted friend request''), s3))"

definition rejectFriendRequest ::
  "store \<Rightarrow> oid \<Rightarrow> (error + friendRequest \<times> string) \<times> store" where
  "rejectFriendRequest s i =
     (let (friendRequest, frs) =
            findByIdAndUpdate fr_id (\<lambda>r. r\<lparr>status := Rejected\<rparr>) (FriendRequest s) i;
          s1 = s\<lparr>FriendRequest := frs\<rparr>
      in case friendRequest of
           None \<Rightarrow> (Inl (AppError ''Friend request not found'' 404), s1)
         | Some fr \<Rightarrow> (Inr (fr, ''Rejected friend request''), s1))"

text \<open>The friends list a user identifier resolves to; no User document, no friends.\<close>

definition friendsOf :: "store \<Rightarrow> oid \<Rightarrow> oid list" where
  "friendsOf s i = (case findById u_id (User s) i of None \<Rightarrow> [] | Some u \<Rightarrow> friends u)"

section \<open>User controller: account deletion\<close>

definition deleteUser :: "store \<Rightarrow> oid \<Rightarrow> oid \<Rightarrow> (error + string) \<times> store" where
  "deleteUser s userId i =
     (case findById u_id (User s) i of
        None \<Rightarrow> (Inl (AppError ''User not found'' 404), s)
      | Some user \<Rightarrow>
          if u_id user \<noteq> userId
          then (Inl (AppError ''You are not authorized to delete this user'' 403), s)
          else
            let (deletedUser, us) = findByIdAndDelete u_id (User s) i;
                s1 = s\<lparr>User := us\<rparr>
            in case deletedUser of
                 None \<Rightarrow> (Inl (AppError ''User not found'' 404), s1)
               | Some _ \<Rightarrow>
                   let s2 = s1\<lparr>Post := deleteMany (\<lambda>p. author p = u_id user) (Post s1)\<rparr>;
                       s3 = s2\<lparr>Post := updateMany
                              (\<lambda>p. p\<lparr>likedBy := pull (u_id user) (likedBy p)\<rparr>) (Post s2)\<rparr>;
                       s4 = s3\<lparr>User := updateMany
                              (\<lambda>u. u\<lparr>friends := pull (u_id user) (friends u)\<rparr>) (User s3)\<rparr>;
                       s5 = s4\<lparr>FriendRequest := deleteMany
                              (\<lambda>r. sender r = u_id user \<or> receiver r = u_id user)
                              (FriendRequest s4)\<rparr>;
                       s6 = s5\<lparr>Comment := deleteMany (\<lambda>c. c_author c = u_id user) (Comment s5)\<rparr>
                   in (Inr ''User deleted successfully'', s6))"

section \<open>Pagination envelope\<close>

text \<open>
  \<open>page\<close> and \<open>limit\<close> come from the query string through
  \<open>parseInt(v, 10) || d\<close>: \<open>None\<close> stands for a value that does not parse (NaN), and
  both NaN and 0 fall back to the default. Negative numbers are outside this model.
  \<open>Math.ceil(count / limit)\<close> is the ceiling of the exact quotient.
\<close>

record query =
  q_page :: "nat option"
  q_limit :: "nat option"

definition orDefault :: "nat option \<Rightarrow> nat \<Rightarrow> nat" where
  "orDefault v d = (case v of None \<Rightarrow> d | Some n \<Rightarrow> if n = 0 then d else n)"

definition ceilDiv :: "nat \<Rightarrow> nat \<Rightarrow> nat" where
  "ceilDiv c l = nat \<lceil>real c / real l\<rceil>"

record 'a envelope =
  success :: bool
  data :: "'a list"
  count :: nat
  page :: nat
  totalPages :: nat

text \<open>\<open>.sort({ createdAt: -1 })\<close>: newest first, documents of one instant in store order.\<close>

definition sortByCreatedAtDesc :: "('a \<Rightarrow> int) \<Rightarrow> 'a list \<Rightarrow> 'a list" where
  "sortByCreatedAtDesc key ds = sort_key (\<lambda>d. - key d) ds"


section \<open>Feed controller\<close>

text \<open>
  \<open>populate("author", "-password")\<close> replaces the author identifier of a post by the
  User document without its password, or by null when there is none.
\<close>

record publicUser =
  pu_id :: oid
  pu_username :: string
  pu_email :: string
  pu_name :: string
  pu_bio :: "string option"
  pu_posts :: "oid list"
  pu_friends :: "oid list"
  pu_avatar :: string

definition minusPassword :: "user \<Rightarrow> publicUser" where
  "minusPassword u =
     \<lparr>pu_id = u_id u, pu_username = username u, pu_email = email u, pu_name = name u,
      pu_bio = bio u, pu_posts = posts u, pu_friends = friends u, pu_avatar = avatar u\<rparr>"

record feedPost =
  fp_id :: oid
  fp_title :: string
  fp_content :: string
  fp_author :: "publicUser option"
  fp_likedBy :: "oid list"
  fp_comments :: "oid list"
  fp_createdAt :: int

definition populateAuthor :: "user list \<Rightarrow> post \<Rightarrow> feedPost" where
  "populateAuthor us p =
     \<lparr>fp_id = p_id p, fp_title = title p, fp_content = content p,
      fp_author = map_option minusPassword (findById u_id us (author p)),
      fp_likedBy = likedBy p, fp_comments = comments p, fp_createdAt = createdAt p\<rparr>"

text \<open>
  The feed controller requires the Post and User models only. The class \<open>AppError\<close>
  that its three handlers construct when the requester is missing is not bound in that
  module, so evaluating \<open>new AppError(...)\<close> throws a ReferenceError inside the \<open>try\<close>,
  and the \<open>catch\<close> hands that error to \<open>next\<close>.
\<close>

definition newAppError_unbound :: error where
  "newAppError_unbound = ReferenceError ''AppError is not defined''"

definition getFeed :: "store \<Rightarrow> oid \<Rightarrow> query \<Rightarrow> error + feedPost envelope" where
  "getFeed s userId q =
     (let page = orDefault (q_page q) 1;
          limit = orDefault (q_limit q) 10;
          skip = (page - 1) * limit
      in case findById u_id (User s) userId of
           None \<Rightarrow> Inl newAppError_unbound
         | Some user \<Rightarrow>
             let posts = map (populateAuthor (User s)) (take limit (drop skip
                           (sortByCreatedAtDesc createdAt
                              (filter (\<lambda>p. author p \<in> set (friends user)) (Post s)))));
                 count = length (filter (\<lambda>p. author p \<in> set (friends user)) (Post s))
             in Inr \<lparr>success = True, data = posts, count = count, page = page,
                      totalPages = ceilDiv count limit\<rparr>)"

text \<open>The query of the friend-liked feed: \<open>$in\<close> on the array field \<open>likedBy\<close> holds
  when some element of the array is among the friends.\<close>

definition friendLikedQuery :: "oid list \<Rightarrow> post \<Rightarrow> bool" where
  "friendLikedQuery fs p =
     (list_ex (\<lambda>x. x \<in> set fs) (likedBy p) \<and> author p \<notin> set fs)"

definition getFriendLikedPosts :: "store \<Rightarrow> oid \<Rightarrow> query \<Rightarrow> error + feedPost envelope" where
  "getFriendLikedPosts s userId q =
     (let page = orDefault (q_page q) 1;
          limit = orDefault (q_limit q) 10;
          skip = (page - 1) * limit
      in case findById u_id (User s) userId of
           None \<Rightarrow> Inl newAppError_unbound
         | Some user \<Rightarrow>
             let posts = map (populateAuthor (User s)) (take limit (drop skip
                           (sortByCreatedAtDesc createdAt
                              (filter (friendLikedQuery (friends user)) (Post s)))));
                 count = length (filter (friendLikedQuery (friends user)) (Post s))
             in Inr \<lparr>success = True, data = posts, count = count, page = page,
                      totalPages = ceilDiv count limit\<rparr>)"

subsection \<open>The aggregation pipeline of the friend-comment feed\<close>

text \<open>
  Stage by stage: \<open>$match\<close> on the author, \<open>$lookup\<close> of the comments whose identifier
  is in the post's list, \<open>$unwind\<close> (one row per comment, none for a post without),
  \<open>$match\<close> on the comment's author, \<open>$group\<close> by post identifier (\<open>$first\<close> of the
  post fields, \<open>$push\<close> of the comments), \<open>$sort\<close>, \<open>$skip\<close>, \<open>$limit\<close>, then the
  \<open>$lookup\<close> and \<open>$unwind\<close> of the author and the projection that drops the password.
  Groups are kept in the order their first row arrives.
\<close>

definition lookupComments :: "comment list \<Rightarrow> post list \<Rightarrow> (post \<times> comment list) list" where
  "lookupComments cs ps = map (\<lambda>p. (p, filter (\<lambda>c. c_id c \<in> set (comments p)) cs)) ps"

definition unwind :: "('a \<times> 'b list) list \<Rightarrow> ('a \<times> 'b) list" where
  "unwind rows = concat (map (\<lambda>(d, xs). map (\<lambda>x. (d, x)) xs) rows)"

record groupedPost =
  g_id :: oid
  g_title :: string
  g_content :: string
  g_author :: oid
  g_createdAt :: int
  g_comments :: "comment list"

fun groupAdd :: "post \<times> comment \<Rightarrow> groupedPost list \<Rightarrow> groupedPost list" where
  "groupAdd (p, c) [] =
     [\<lparr>g_id = p_id p, g_title = title p, g_content = content p, g_author = author p,
       g_createdAt = createdAt p, g_comments = [c]\<rparr>]"
| "groupAdd (p, c) (g # gs) =
     (if g_id g = p_id p then g\<lparr>g_comments := g_comments g @ [c]\<rparr> # gs
      else g # groupAdd (p, c) gs)"

definition groupById :: "(post \<times> comment) list \<Rightarrow> groupedPost list" where
  "groupById rows = fold groupAdd rows []"


record friendCommentPost =
  fc_id :: oid
  fc_title :: string
  fc_content :: string
  fc_author :: publicUser
  fc_createdAt :: int
  fc_comments :: "comment list"

definition lookupAuthor :: "user list \<Rightarrow> groupedPost list \<Rightarrow> (groupedPost \<times> user list) list" where
  "lookupAuthor us gs = map (\<lambda>g. (g, filter (\<lambda>u. u_id u = g_author g) us)) gs"

definition projectAuthor :: "groupedPost \<times> user \<Rightarrow> friendCommentPost" where
  "projectAuthor r =
     (case r of (g, u) \<Rightarrow>
        \<lparr>fc_id = g_id g, fc_title = g_title g, fc_content = g_content g,
         fc_author = minusPassword u, fc_createdAt = g_createdAt g,
         fc_comments = g_comments g\<rparr>)"

definition friendCommentRows :: "store \<Rightarrow> oid list \<Rightarrow> (post \<times> comment) list" where
  "friendCommentRows s fs =
     filter (\<lambda>(p, c). c_author c \<in> set fs)
       (unwind (lookupComments (Comment s) (filter (\<lambda>p. author p \<notin> set fs) (Post s))))"

definition getFriendCommentFeed ::
  "store \<Rightarrow> oid \<Rightarrow> query \<Rightarrow> error + friendCommentPost envelope" where
  "getFriendCommentFeed s userId q =
     (let page = orDefault (q_page q) 1;
          limit = orDefault (q_limit q) 10;
          skip = (page - 1) * limit
      in case findById u_id (User s) userId of
           None \<Rightarrow> Inl newAppError_unbound
         | Some user \<Rightarrow>
             let posts = map projectAuthor (unwind (lookupAuthor (User s)
                           (take limit (drop skip
                              (sortByCreatedAtDesc g_createdAt
                                 (groupById (friendCommentRows s (friends user))))))));
                 count = length (remdups (map (\<lambda>(p, c). p_id p)
                                            (friendCommentRows s (friends user))))
             in Inr \<lparr>success = True, data = posts, count = count, page = page,
                      totalPages = ceilDiv count limit\<rparr>)"

section \<open>The pagination contract, in the spec's words\<close>


section \<open>A small store for concrete runs\<close>

text \<open>
  Ann (11) and Bob (12) are friends, Cat (13) is a stranger to both. Bob wrote post 100;
  Cat wrote posts 101, 102 and 103. Bob and Cat commented on 101, Bob on 103. Request 302
  names a receiver (19) that has no User document.
\<close>

definition mkUser :: "oid \<Rightarrow> string \<Rightarrow> oid list \<Rightarrow> oid list \<Rightarrow> user" where
  "mkUser i n ps fs =
     \<lparr>u_id = i, username = n, email = n @ ''@example.org'', password = ''$2b$12$hash'',
      name = n, bio = None, posts = ps, friends = fs,
      avatar = ''https://www.gravatar.com/avatar/0''\<rparr>"

definition mkPost :: "oid \<Rightarrow> oid \<Rightarrow> oid list \<Rightarrow> oid list \<Rightarrow> int \<Rightarrow> post" where
  "mkPost i a ls cs t =
     \<lparr>p_id = i, title = ''title'', content = ''content'', author = a, likedBy = ls,
      comments = cs, createdAt = t\<rparr>"

definition mkComment :: "oid \<Rightarrow> oid \<Rightarrow> oid \<Rightarrow> oid list \<Rightarrow> int \<Rightarrow> comment" where
  "mkComment i a p ls t =
     \<lparr>c_id = i, c_content = ''comment'', c_author = a, c_post = p, c_likedBy = ls,
      c_createdAt = t\<rparr>"

definition ex_store :: store where
  "ex_store =
     \<lparr>User = [mkUser 11 ''ann'' [] [12], mkUser 12 ''bob'' [100] [11],
              mkUser 13 ''cat'' [101, 102, 103] []],
      Post = [mkPost 100 12 [11] [] 10, mkPost 101 13 [12] [200, 201] 20,
              mkPost 102 13 [] [] 30, mkPost 103 13 [13, 12] [202] 40],
      Comment = [mkComment 200 12 101 [] 21, mkComment 201 13 101 [12] 22,
                 mkComment 202 12 103 [] 41],
      FriendRequest =
        [\<lparr>fr_id = 300, sender = 13, receiver = 11, status = Pending\<rparr>,
         \<lparr>fr_id = 301, sender = 11, receiver = 13, status = Rejected\<rparr>,
         \<lparr>fr_id = 302, sender = 11, receiver = 19, status = Pending\<rparr>,
         \<lparr>fr_id = 303, sender = 12, receiver = 13, status = Accepted\<rparr>]\<rparr>"


section \<open>Properties\<close>

subsection \<open>Store primitives\<close>

lemma findById_updateOne_same:
  "findById key ds i = Some d \<Longrightarrow> key d' = i \<Longrightarrow>
   findById key (updateOne (\<lambda>x. key x = i) (\<lambda>_. d') ds) i = Some d'"
  by (induction ds) (auto simp: findById_def)

lemma findById_key: "findById key ds i = Some d \<Longrightarrow> key d = i"
  by (induction ds) (auto simp: findById_def split: if_splits)

lemma toggleLikePost_found:
  assumes "findById p_id (Post s) i = Some p"
  shows "fst (toggleLikePost s u i) =
           Inr (if u \<in> set (likedBy p) then p\<lparr>likedBy := pull u (likedBy p)\<rparr>
                else p\<lparr>likedBy := push u (likedBy p)\<rparr>,
                if u \<in> set (likedBy p) then ''Like removed'' else ''Like added'')"
    and "findById p_id (Post (snd (toggleLikePost s u i))) i =
           Some (if u \<in> set (likedBy p) then p\<lparr>likedBy := pull u (likedBy p)\<rparr>
                 else p\<lparr>likedBy := push u (likedBy p)\<rparr>)"
  using assms findById_key[OF assms]
  by (auto simp: toggleLikePost_def includes_id_def Let_def findById_updateOne_same)

lemma toggleLikeComment_found:
  assumes "findById c_id (Comment s) i = Some c"
  shows "fst (toggleLikeComment s u i) =
           Inr (if u \<in> set (c_likedBy c) then c\<lparr>c_likedBy := pull u (c_likedBy c)\<rparr>
                else c\<lparr>c_likedBy := push u (c_likedBy c)\<rparr>,
                if u \<in> set (c_likedBy c) then ''Like removed'' else ''Like added'')"
    and "findById c_id (Comment (snd (toggleLikeComment s u i))) i =
           Some (if u \<in> set (c_likedBy c) then c\<lparr>c_likedBy := pull u (c_likedBy c)\<rparr>
                 else c\<lparr>c_likedBy := push u (c_likedBy c)\<rparr>)"
  using assms findById_key[OF assms]
  by (auto simp: toggleLikeComment_def includes_id_def Let_def findById_updateOne_same)

lemma set_pull: "set (pull x xs) = set xs - {x}"
  by (auto simp: pull_def)

lemma set_push: "set (push x xs) = insert x (set xs)"
  by (auto simp: push_def)

subsection \<open>Like toggle\<close>

text \<open>
  Claim C3. For an existing post (and likewise an existing comment) and any user
  identifier \<open>u\<close>: one call of the toggle removes \<open>u\<close> from the liked-by set when it
  was there and reports "Like removed", adds it when it was not and reports "Like added",
  and so always changes the set; a second call with the same actor brings the liked-by
  set back to what it was.
\<close>

theorem like_toggle_involution:
  "(findById p_id (Post s) i = Some p \<longrightarrow>
      (\<exists>p1 p2.
          fst (toggleLikePost s u i) =
            Inr (p1, if u \<in> set (likedBy p) then ''Like removed'' else ''Like added'')
        \<and> findById p_id (Post (snd (toggleLikePost s u i))) i = Some p1
        \<and> set (likedBy p1) =
            (if u \<in> set (likedBy p) then set (likedBy p) - {u} else insert u (set (likedBy p)))
        \<and> set (likedBy p1) \<noteq> set (likedBy p)
        \<and> fst (toggleLikePost (snd (toggleLikePost s u i)) u i) =
            Inr (p2, if u \<in> set (likedBy p) then ''Like added'' else ''Like removed'')
        \<and> findById p_id (Post (snd (toggleLikePost (snd (toggleLikePost s u i)) u i))) i = Some p2
        \<and> set (likedBy p2) = set (likedBy p)))
   \<and> (findById c_id (Comment s) j = Some c \<longrightarrow>
      (\<exists>c1 c2.
          fst (toggleLikeComment s u j) =
            Inr (c1, if u \<in> set (c_likedBy c) then ''Like removed'' else ''Like added'')
        \<and> findById c_id (Comment (snd (toggleLikeComment s u j))) j = Some c1
        \<and> set (c_likedBy c1) =
            (if u \<in> set (c_likedBy c) then set (c_likedBy c) - {u}
             else insert u (set (c_likedBy c)))
        \<and> set (c_likedBy c1) \<noteq> set (c_likedBy c)
        \<and> fst (toggleLikeComment (snd (toggleLikeComment s u j)) u j) =
            Inr (c2, if u \<in> set (c_likedBy c) then ''Like added'' else ''Like removed'')
        \<and> findById c_id (Comment (snd (toggleLikeComment (snd (toggleLikeComment s u j)) u j))) j
            = Some c2
        \<and> set (c_likedBy c2) = set (c_likedBy c)))"
proof (intro conjI impI)
  assume f: "findById p_id (Post s) i = Some p"
  let ?p1 = "if u \<in> set (likedBy p) then p\<lparr>likedBy := pull u (likedBy p)\<rparr>
             else p\<lparr>likedBy := push u (likedBy p)\<rparr>"
  let ?s1 = "snd (toggleLikePost s u i)"
  have f1: "findById p_id (Post ?s1) i = Some ?p1"
    by (rule toggleLikePost_found(2)[OF f])
  let ?p2 = "if u \<in> set (likedBy ?p1) then ?p1\<lparr>likedBy := pull u (likedBy ?p1)\<rparr>
             else ?p1\<lparr>likedBy := push u (likedBy ?p1)\<rparr>"
  have r1: "fst (toggleLikePost s u i) =
      Inr (?p1, if u \<in> set (likedBy p) then ''Like removed'' else ''Like added'')"
    by (rule toggleLikePost_found(1)[OF f])
  have r2: "fst (toggleLikePost ?s1 u i) =
      Inr (?p2, if u \<in> set (likedBy ?p1) then ''Like removed'' else ''Like added'')"
    by (rule toggleLikePost_found(1)[OF f1])
  have f2: "findById p_id (Post (snd (toggleLikePost ?s1 u i))) i = Some ?p2"
    by (rule toggleLikePost_found(2)[OF f1])
  have m1: "u \<in> set (likedBy ?p1) \<longleftrightarrow> u \<notin> set (likedBy p)"
    by (simp add: set_pull set_push)
  have s1: "set (likedBy ?p1) =
      (if u \<in> set (likedBy p) then set (likedBy p) - {u} else insert u (set (likedBy p)))"
    by (simp add: set_pull set_push)
  have s2: "set (likedBy ?p2) = set (likedBy p)"
    by (auto simp: set_pull set_push)
  have ne: "set (likedBy ?p1) \<noteq> set (likedBy p)"
    using m1 by blast
  have r2': "fst (toggleLikePost ?s1 u i) =
      Inr (?p2, if u \<in> set (likedBy p) then ''Like added'' else ''Like removed'')"
    using r2 m1 by simp
  from r1 f1 s1 ne r2' f2 s2
  show "\<exists>p1 p2.
          fst (toggleLikePost s u i) =
            Inr (p1, if u \<in> set (likedBy p) then ''Like removed'' else ''Like added'')
        \<and> findById p_id (Post (snd (toggleLikePost s u i))) i = Some p1
        \<and> set (likedBy p1) =
            (if u \<in> set (likedBy p) then set (likedBy p) - {u} else insert u (set (likedBy p)))
        \<and> set (likedBy p1) \<noteq> set (likedBy p)
        \<and> fst (toggleLikePost (snd (toggleLikePost s u i)) u i) =
            Inr (p2, if u \<in> set (likedBy p) then ''Like added'' else ''Like removed'')
        \<and> findById p_id (Post (snd (toggleLikePost (snd (toggleLikePost s u i)) u i))) i = Some p2
        \<and> set (likedBy p2) = set (likedBy p)"
    by blast
next
  assume f: "findById c_id (Comment s) j = Some c"
  let ?c1 = "if u \<in> set (c_likedBy c) then c\<lparr>c_likedBy := pull u (c_likedBy c)\<rparr>
             else c\<lparr>c_likedBy := push u (c_likedBy c)\<rparr>"
  let ?s1 = "snd (toggleLikeComment s u j)"
  have f1: "findById c_id (Comment ?s1) j = Some ?c1"
    by (rule toggleLikeComment_found(2)[OF f])
  let ?c2 = "if u \<in> set (c_likedBy ?c1) then ?c1\<lparr>c_likedBy := pull u (c_likedBy ?c1)\<rparr>
             else ?c1\<lparr>c_likedBy := push u (c_likedBy ?c1)\<rparr>"
  have r1: "fst (toggleLikeComment s u j) =
      Inr (?c1, if u \<in> set (c_likedBy c) then ''Like removed'' else ''Like added'')"
    by (rule toggleLikeComment_found(1)[OF f])
  have r2: "fst (toggleLikeComment ?s1 u j) =
      Inr (?c2, if u \<in> set (c_likedBy ?c1) then ''Like removed'' else ''Like added'')"
    by (rule toggleLikeComment_found(1)[OF f1])
  have f2: "findById c_id (Comment (snd (toggleLikeComment ?s1 u j))) j = Some ?c2"
    by (rule toggleLikeComment_found(2)[OF f1])
  have m1: "u \<in> set (c_likedBy ?c1) \<longleftrightarrow> u \<notin> set (c_likedBy c)"
    by (simp add: set_pull set_push)
  have s1: "set (c_likedBy ?c1) =
      (if u \<in> set (c_likedBy c) then set (c_likedBy c) - {u} else insert u (set (c_likedBy c)))"
    by (simp add: set_pull set_push)
  have s2: "set (c_likedBy ?c2) = set (c_likedBy c)"
    by (auto simp: set_pull set_push)
  have ne: "set (c_likedBy ?c1) \<noteq> set (c_likedBy c)"
    using m1 by blast
  have r2': "fst (toggleLikeComment ?s1 u j) =
      Inr (?c2, if u \<in> set (c_likedBy c) then ''Like added'' else ''Like removed'')"
    using r2 m1 by simp
  from r1 f1 s1 ne r2' f2 s2
  show "\<exists>c1 c2.
          fst (toggleLikeComment s u j) =
            Inr (c1, if u \<in> set (c_likedBy c) then ''Like removed'' else ''Like added'')
        \<and> findById c_id (Comment (snd (toggleLikeComment s u j))) j = Some c1
        \<and> set (c_likedBy c1) =
            (if u \<in> set (c_likedBy c) then set (c_likedBy c) - {u}
             else insert u (set (c_likedBy c)))
        \<and> set (c_likedBy c1) \<noteq> set (c_likedBy c)
        \<and> fst (toggleLikeComment (snd (toggleLikeComment s u j)) u j) =
            Inr (c2, if u \<in> set (c_likedBy c) then ''Like added'' else ''Like removed'')
        \<and> findById c_id (Comment (snd (toggleLikeComment (snd (toggleLikeComment s u j)) u j))) j
            = Some c2
        \<and> set (c_likedBy c2) = set (c_likedBy c)"
    by blast
qed


lemma ex_find_post100: "findById p_id (Post ex_store) 100 = Some (mkPost 100 12 [11] [] 10)"
  by (simp add: ex_store_def findById_def mkPost_def)

lemma ex_find_comment201:
  "findById c_id (Comment ex_store) 201 = Some (mkComment 201 13 101 [12] 22)"
  by (simp add: ex_store_def findById_def mkComment_def)

theorem like_toggle_involution_witness:
  "findById p_id (Post ex_store) 100 = Some (mkPost 100 12 [11] [] 10)
   \<and> findById c_id (Comment ex_store) 201 = Some (mkComment 201 13 101 [12] 22)
   \<and> (\<exists>p1 p2. fst (toggleLikePost ex_store 12 100) = Inr (p1, ''Like added'')
        \<and> set (likedBy p1) = {11, 12}
        \<and> fst (toggleLikePost (snd (toggleLikePost ex_store 12 100)) 12 100)
            = Inr (p2, ''Like removed'')
        \<and> set (likedBy p2) = {11})
   \<and> (\<exists>c1 c2. fst (toggleLikeComment ex_store 12 201) = Inr (c1, ''Like removed'')
        \<and> set (c_likedBy c1) = {}
        \<and> fst (toggleLikeComment (snd (toggleLikeComment ex_store 12 201)) 12 201)
            = Inr (c2, ''Like added'')
        \<and> set (c_likedBy c2) = {12})"
proof -
  have l1: "likedBy (mkPost 100 12 [11] [] 10) = [11]" by (simp add: mkPost_def)
  have l2: "c_likedBy (mkComment 201 13 101 [12] 22) = [12]" by (simp add: mkComment_def)
  from like_toggle_involution[of ex_store 100 "mkPost 100 12 [11] [] 10" 12
        201 "mkComment 201 13 101 [12] 22" ]
  show ?thesis
    unfolding l1 l2 using ex_find_post100 ex_find_comment201
    by (auto simp: insert_commute)
qed

subsection \<open>Friend requests\<close>

lemma updateOne_absent:
  "findById key ds i = None \<Longrightarrow> updateOne (\<lambda>d. key d = i) f ds = ds"
  by (induction ds) (auto simp: findById_def split: if_splits)

lemma findById_updateOne:
  "(\<And>d. key (f d) = key d) \<Longrightarrow>
   findById key (updateOne (\<lambda>d. key d = i) f ds) j =
     (if j = i then map_option f (findById key ds i) else findById key ds j)"
  by (induction ds) (auto simp: findById_def)

lemma acceptFriendRequest_absent:
  "findById fr_id (FriendRequest s) i = None \<Longrightarrow>
   acceptFriendRequest s i = (Inl (AppError ''Friend request not found'' 404), s)"
  by (simp add: acceptFriendRequest_def findByIdAndUpdate_def updateOne_absent)

lemma rejectFriendRequest_absent:
  "findById fr_id (FriendRequest s) i = None \<Longrightarrow>
   rejectFriendRequest s i = (Inl (AppError ''Friend request not found'' 404), s)"
  by (simp add: rejectFriendRequest_def findByIdAndUpdate_def updateOne_absent)

lemma acceptFriendRequest_found:
  assumes "findById fr_id (FriendRequest s) i = Some r"
  shows "fst (acceptFriendRequest s i) = Inr (r\<lparr>status := Accepted\<rparr>, ''Accepted friend request'')"
    and "FriendRequest (snd (acceptFriendRequest s i)) =
           updateOne (\<lambda>d. fr_id d = i) (\<lambda>r. r\<lparr>status := Accepted\<rparr>) (FriendRequest s)"
    and "User (snd (acceptFriendRequest s i)) =
           updateOne (\<lambda>d. u_id d = receiver r) (\<lambda>u. u\<lparr>friends := addToSet (sender r) (friends u)\<rparr>)
             (updateOne (\<lambda>d. u_id d = sender r) (\<lambda>u. u\<lparr>friends := addToSet (receiver r) (friends u)\<rparr>)
                (User s))"
    and "Post (snd (acceptFriendRequest s i)) = Post s"
    and "Comment (snd (acceptFriendRequest s i)) = Comment s"
  using assms by (simp_all add: acceptFriendRequest_def findByIdAndUpdate_def Let_def)

lemma rejectFriendRequest_found:
  assumes "findById fr_id (FriendRequest s) i = Some r"
  shows "rejectFriendRequest s i =
           (Inr (r\<lparr>status := Rejected\<rparr>, ''Rejected friend request''),
            s\<lparr>FriendRequest := updateOne (\<lambda>d. fr_id d = i) (\<lambda>r. r\<lparr>status := Rejected\<rparr>) (FriendRequest s)\<rparr>)"
  using assms by (simp add: rejectFriendRequest_def findByIdAndUpdate_def Let_def)

text \<open>
  Claim C1, as amended. Neither handler reads the current status: for an existing
  request, \<open>acceptFriendRequest\<close> writes accepted and \<open>rejectFriendRequest\<close> writes
  rejected whatever the status was, and rejecting changes no User document. So an
  accepted request is left as it is by accepting and a rejected one by rejecting, while
  the two crossing transitions between the terminal states are taken.
\<close>

theorem friend_request_status_overwritten:
  assumes "findById fr_id (FriendRequest s) i = Some r"
  shows "fst (acceptFriendRequest s i) = Inr (r\<lparr>status := Accepted\<rparr>, ''Accepted friend request'')
       \<and> findById fr_id (FriendRequest (snd (acceptFriendRequest s i))) i = Some (r\<lparr>status := Accepted\<rparr>)
       \<and> fst (rejectFriendRequest s i) = Inr (r\<lparr>status := Rejected\<rparr>, ''Rejected friend request'')
       \<and> findById fr_id (FriendRequest (snd (rejectFriendRequest s i))) i = Some (r\<lparr>status := Rejected\<rparr>)
       \<and> User (snd (rejectFriendRequest s i)) = User s
       \<and> (status r = Accepted \<longrightarrow>
            findById fr_id (FriendRequest (snd (acceptFriendRequest s i))) i = Some r)
       \<and> (status r = Rejected \<longrightarrow>
            findById fr_id (FriendRequest (snd (rejectFriendRequest s i))) i = Some r)"
proof -
  have a: "findById fr_id (FriendRequest (snd (acceptFriendRequest s i))) i = Some (r\<lparr>status := Accepted\<rparr>)"
    by (simp add: acceptFriendRequest_found(2)[OF assms] findById_updateOne assms)
  have b: "findById fr_id (FriendRequest (snd (rejectFriendRequest s i))) i = Some (r\<lparr>status := Rejected\<rparr>)"
    by (simp add: rejectFriendRequest_found[OF assms] findById_updateOne assms)
  have c: "status r = Accepted \<Longrightarrow> r\<lparr>status := Accepted\<rparr> = r"
    and d: "status r = Rejected \<Longrightarrow> r\<lparr>status := Rejected\<rparr> = r" by auto
  show ?thesis
    using a b c d acceptFriendRequest_found(1)[OF assms] rejectFriendRequest_found[OF assms]
    by simp
qed

lemma ex_find_fr:
  "findById fr_id (FriendRequest ex_store) 300 = Some \<lparr>fr_id = 300, sender = 13, receiver = 11, status = Pending\<rparr>"
  "findById fr_id (FriendRequest ex_store) 301 = Some \<lparr>fr_id = 301, sender = 11, receiver = 13, status = Rejected\<rparr>"
  "findById fr_id (FriendRequest ex_store) 302 = Some \<lparr>fr_id = 302, sender = 11, receiver = 19, status = Pending\<rparr>"
  "findById fr_id (FriendRequest ex_store) 303 = Some \<lparr>fr_id = 303, sender = 12, receiver = 13, status = Accepted\<rparr>"
  by (simp_all add: ex_store_def findById_def)

lemma ex_find_user:
  "findById u_id (User ex_store) 11 = Some (mkUser 11 ''ann'' [] [12])"
  "findById u_id (User ex_store) 12 = Some (mkUser 12 ''bob'' [100] [11])"
  "findById u_id (User ex_store) 13 = Some (mkUser 13 ''cat'' [101, 102, 103] [])"
  "findById u_id (User ex_store) 19 = None"
  by (simp_all add: ex_store_def findById_def mkUser_def)

text \<open>
  Claim C1 as stated fails: accepting the rejected request 301 makes it accepted and
  makes Cat a friend of Ann, and rejecting the accepted request 303 makes it rejected.
\<close>

theorem terminal_state_counterexample:
  "map_option status (findById fr_id (FriendRequest ex_store) 301) = Some Rejected
   \<and> 13 \<notin> set (friendsOf ex_store 11)
   \<and> map_option status
        (findById fr_id (FriendRequest (snd (acceptFriendRequest ex_store 301))) 301) = Some Accepted
   \<and> 13 \<in> set (friendsOf (snd (acceptFriendRequest ex_store 301)) 11)
   \<and> map_option status (findById fr_id (FriendRequest ex_store) 303) = Some Accepted
   \<and> map_option status
        (findById fr_id (FriendRequest (snd (rejectFriendRequest ex_store 303))) 303) = Some Rejected"
  by (simp add: acceptFriendRequest_found(2,3)[OF ex_find_fr(2)] rejectFriendRequest_found[OF ex_find_fr(4)]
        findById_updateOne ex_find_fr friendsOf_def ex_find_user mkUser_def addToSet_def)

theorem friend_request_status_overwritten_witness:
  "findById fr_id (FriendRequest ex_store) 303 =
     Some \<lparr>fr_id = 303, sender = 12, receiver = 13, status = Accepted\<rparr>
   \<and> findById fr_id (FriendRequest (snd (acceptFriendRequest ex_store 303))) 303 =
     Some \<lparr>fr_id = 303, sender = 12, receiver = 13, status = Accepted\<rparr>
   \<and> findById fr_id (FriendRequest (snd (rejectFriendRequest ex_store 303))) 303 =
     Some \<lparr>fr_id = 303, sender = 12, receiver = 13, status = Rejected\<rparr>
   \<and> User (snd (rejectFriendRequest ex_store 303)) = User ex_store
   \<and> findById fr_id (FriendRequest ex_store) 301 =
     Some \<lparr>fr_id = 301, sender = 11, receiver = 13, status = Rejected\<rparr>
   \<and> findById fr_id (FriendRequest (snd (rejectFriendRequest ex_store 301))) 301 =
     Some \<lparr>fr_id = 301, sender = 11, receiver = 13, status = Rejected\<rparr>
   \<and> findById fr_id (FriendRequest (snd (acceptFriendRequest ex_store 301))) 301 =
     Some \<lparr>fr_id = 301, sender = 11, receiver = 13, status = Accepted\<rparr>"
  using friend_request_status_overwritten[OF ex_find_fr(4)] ex_find_fr(4)
    friend_request_status_overwritten[OF ex_find_fr(2)] ex_find_fr(2)
  by simp

lemma fold_max_ge: "(a::nat) \<le> fold max xs a"
proof (induction xs arbitrary: a)
  case Nil
  show ?case by simp
next
  case (Cons x xs)
  have "a \<le> max x a" by simp
  also have "\<dots> \<le> fold max xs (max x a)" by (rule Cons.IH)
  finally show ?case by simp
qed

lemma fold_max_upper: "x \<in> set xs \<Longrightarrow> (x::nat) \<le> fold max xs a"
proof (induction xs arbitrary: a)
  case Nil
  then show ?case by simp
next
  case (Cons y ys)
  show ?case
  proof (cases "x = y")
    case True
    have "x \<le> max y a" using True by simp
    also have "\<dots> \<le> fold max ys (max y a)" by (rule fold_max_ge)
    finally show ?thesis by simp
  next
    case False
    with Cons.prems have "x \<in> set ys" by simp
    then show ?thesis using Cons.IH by simp
  qed
qed

lemma newObjectId_fresh: "newObjectId ids \<notin> set ids"
proof
  assume "newObjectId ids \<in> set ids"
  then have "newObjectId ids \<le> fold max ids 0" by (rule fold_max_upper)
  then show False by (simp add: newObjectId_def)
qed

lemma findById_None_iff: "findById key ds i = None \<longleftrightarrow> i \<notin> key ` set ds"
  by (induction ds) (auto simp: findById_def)

lemma findById_append_new:
  "findById key ds (key d) = None \<Longrightarrow> findById key (ds @ [d]) (key d) = Some d"
  by (induction ds) (auto simp: findById_def split: if_splits)

text \<open>
  Claim C2, as amended. Accepting a request that does not exist fails with status 404
  and leaves the store as it was. Accepting an existing request whose sender A and
  receiver B both have a User document sets its status to accepted and adds B to A's
  friends and A to B's friends, each only if absent, so that afterwards each is in the
  other's friends.
\<close>

theorem accept_friend_request:
  "(findById fr_id (FriendRequest s) i = None \<longrightarrow>
      acceptFriendRequest s i = (Inl (AppError ''Friend request not found'' 404), s))
   \<and> (findById fr_id (FriendRequest s) i = Some r
        \<and> findById u_id (User s) (sender r) = Some a
        \<and> findById u_id (User s) (receiver r) = Some b \<longrightarrow>
      fst (acceptFriendRequest s i) = Inr (r\<lparr>status := Accepted\<rparr>, ''Accepted friend request'')
      \<and> findById fr_id (FriendRequest (snd (acceptFriendRequest s i))) i
          = Some (r\<lparr>status := Accepted\<rparr>)
      \<and> set (friendsOf (snd (acceptFriendRequest s i)) (sender r))
          = insert (receiver r) (set (friends a))
      \<and> set (friendsOf (snd (acceptFriendRequest s i)) (receiver r))
          = insert (sender r) (set (friends b))
      \<and> (sender r \<noteq> receiver r \<longrightarrow>
            friendsOf (snd (acceptFriendRequest s i)) (sender r)
              = addToSet (receiver r) (friends a)
          \<and> friendsOf (snd (acceptFriendRequest s i)) (receiver r)
              = addToSet (sender r) (friends b))
      \<and> sender r \<in> set (friendsOf (snd (acceptFriendRequest s i)) (receiver r))
      \<and> receiver r \<in> set (friendsOf (snd (acceptFriendRequest s i)) (sender r)))"
proof (intro conjI impI)
  assume "findById fr_id (FriendRequest s) i = None"
  then show "acceptFriendRequest s i = (Inl (AppError ''Friend request not found'' 404), s)"
    by (rule acceptFriendRequest_absent)
next
  assume h: "findById fr_id (FriendRequest s) i = Some r
        \<and> findById u_id (User s) (sender r) = Some a
        \<and> findById u_id (User s) (receiver r) = Some b"
  then have r: "findById fr_id (FriendRequest s) i = Some r"
    and a: "findById u_id (User s) (sender r) = Some a"
    and b: "findById u_id (User s) (receiver r) = Some b" by simp_all
  let ?s = "snd (acceptFriendRequest s i)"
  note U = acceptFriendRequest_found(3)[OF r]
  have ab: "sender r = receiver r \<Longrightarrow> a = b" using a b by simp
  have fa: "friendsOf ?s (sender r) =
      (if sender r = receiver r then addToSet (sender r) (addToSet (receiver r) (friends a))
       else addToSet (receiver r) (friends a))"
  proof (cases "sender r = receiver r")
    case True
    with a b have "a = b" by simp
    with a True show ?thesis by (simp add: friendsOf_def U findById_updateOne)
  next
    case False
    with a b show ?thesis by (simp add: friendsOf_def U findById_updateOne)
  qed
  have fb: "friendsOf ?s (receiver r) =
      (if sender r = receiver r then addToSet (sender r) (addToSet (receiver r) (friends a))
       else addToSet (sender r) (friends b))"
  proof (cases "sender r = receiver r")
    case True
    with a b have "a = b" by simp
    with a True show ?thesis by (simp add: friendsOf_def U findById_updateOne)
  next
    case False
    with a b show ?thesis by (simp add: friendsOf_def U findById_updateOne)
  qed
  show "fst (acceptFriendRequest s i) = Inr (r\<lparr>status := Accepted\<rparr>, ''Accepted friend request'')"
    by (rule acceptFriendRequest_found(1)[OF r])
  show "findById fr_id (FriendRequest ?s) i = Some (r\<lparr>status := Accepted\<rparr>)"
    by (simp add: acceptFriendRequest_found(2)[OF r] findById_updateOne r)
  show "set (friendsOf ?s (sender r)) = insert (receiver r) (set (friends a))"
    by (auto simp: fa addToSet_def)
  show "set (friendsOf ?s (receiver r)) = insert (sender r) (set (friends b))"
    using ab by (auto simp: fb addToSet_def)
  show "sender r \<in> set (friendsOf ?s (receiver r))"
    by (auto simp: fb addToSet_def)
  show "receiver r \<in> set (friendsOf ?s (sender r))"
    by (auto simp: fa addToSet_def)
  assume "sender r \<noteq> receiver r"
  then show "friendsOf ?s (sender r) = addToSet (receiver r) (friends a)"
    and "friendsOf ?s (receiver r) = addToSet (sender r) (friends b)"
    by (simp_all add: fa fb)
qed

text \<open>
  Claim C2 as stated fails for a request whose receiver has no User document (request
  302): the call succeeds and Ann's friends gain 19, but there is no friends set of 19
  for Ann to be added to.
\<close>

theorem accept_dangling_receiver_counterexample:
  "findById fr_id (FriendRequest ex_store) 302
     = Some \<lparr>fr_id = 302, sender = 11, receiver = 19, status = Pending\<rparr>
   \<and> fst (acceptFriendRequest ex_store 302)
     = Inr (\<lparr>fr_id = 302, sender = 11, receiver = 19, status = Accepted\<rparr>,
            ''Accepted friend request'')
   \<and> findById u_id (User (snd (acceptFriendRequest ex_store 302))) 19 = None
   \<and> 19 \<in> set (friendsOf (snd (acceptFriendRequest ex_store 302)) 11)
   \<and> 11 \<notin> set (friendsOf (snd (acceptFriendRequest ex_store 302)) 19)"
  by (simp add: acceptFriendRequest_found(1,3)[OF ex_find_fr(3)] ex_find_fr(3)
        findById_updateOne friendsOf_def ex_find_user mkUser_def addToSet_def)

theorem accept_friend_request_witness:
  "findById fr_id (FriendRequest ex_store) 300
     = Some \<lparr>fr_id = 300, sender = 13, receiver = 11, status = Pending\<rparr>
   \<and> findById u_id (User ex_store) 13 = Some (mkUser 13 ''cat'' [101, 102, 103] [])
   \<and> findById u_id (User ex_store) 11 = Some (mkUser 11 ''ann'' [] [12])
   \<and> findById fr_id (FriendRequest (snd (acceptFriendRequest ex_store 300))) 300
     = Some \<lparr>fr_id = 300, sender = 13, receiver = 11, status = Accepted\<rparr>
   \<and> friendsOf (snd (acceptFriendRequest ex_store 300)) 13 = [11]
   \<and> friendsOf (snd (acceptFriendRequest ex_store 300)) 11 = [12, 13]
   \<and> findById fr_id (FriendRequest ex_store) 999 = None
   \<and> acceptFriendRequest ex_store 999
     = (Inl (AppError ''Friend request not found'' 404), ex_store)"
proof -
  have n: "findById fr_id (FriendRequest ex_store) 999 = None"
    by (simp add: ex_store_def findById_def)
  have f: "friends (mkUser 13 ''cat'' [101, 102, 103] []) = []"
    "friends (mkUser 11 ''ann'' [] [12]) = [12]" by (simp_all add: mkUser_def)
  from accept_friend_request[of ex_store 300
        "\<lparr>fr_id = 300, sender = 13, receiver = 11, status = Pending\<rparr>"
        "mkUser 13 ''cat'' [101, 102, 103] []" "mkUser 11 ''ann'' [] [12]"]
       accept_friend_request[of ex_store 999] n
  show ?thesis
    by (simp add: ex_find_fr(1) ex_find_user f addToSet_def)
qed

text \<open>
  Claim C10. \<open>sendFriendRequest\<close> looks up the sender only. For a sender with a User
  document and any receiver identifier that is present, differs from the sender and is
  not among the sender's friends, a new pending request is stored and returned; nothing
  is asked about a User document of the receiver.
\<close>

theorem send_friend_request_unchecked_receiver:
  assumes "findById u_id (User s) userId = Some u"
    and "r \<noteq> userId"
    and "r \<notin> set (friends u)"
  shows "sendFriendRequest s userId (Some r) =
           (Inr (\<lparr>fr_id = newObjectId (map fr_id (FriendRequest s)), sender = userId,
                  receiver = r, status = Pending\<rparr>, ''Friend request sent''),
            s\<lparr>FriendRequest := FriendRequest s @
                 [\<lparr>fr_id = newObjectId (map fr_id (FriendRequest s)), sender = userId,
                   receiver = r, status = Pending\<rparr>]\<rparr>)
       \<and> findById fr_id (FriendRequest s) (newObjectId (map fr_id (FriendRequest s))) = None
       \<and> findById fr_id (FriendRequest (snd (sendFriendRequest s userId (Some r))))
             (newObjectId (map fr_id (FriendRequest s)))
           = Some \<lparr>fr_id = newObjectId (map fr_id (FriendRequest s)), sender = userId,
                   receiver = r, status = Pending\<rparr>"
proof -
  let ?fr = "\<lparr>fr_id = newObjectId (map fr_id (FriendRequest s)), sender = userId,
              receiver = r, status = Pending\<rparr>"
  have k: "u_id u = userId" by (rule findById_key[OF assms(1)])
  have 1: "sendFriendRequest s userId (Some r) =
      (Inr (?fr, ''Friend request sent''), s\<lparr>FriendRequest := FriendRequest s @ [?fr]\<rparr>)"
    using assms k by (simp add: sendFriendRequest_def includes_id_def Let_def)
  have 2: "findById fr_id (FriendRequest s) (fr_id ?fr) = None"
    using newObjectId_fresh[of "map fr_id (FriendRequest s)"]
    by (simp add: findById_None_iff)
  have 3: "findById fr_id (FriendRequest s @ [?fr]) (fr_id ?fr) = Some ?fr"
    by (rule findById_append_new[OF 2])
  show ?thesis using 1 2 3 by simp
qed

theorem send_friend_request_unchecked_receiver_witness:
  "findById u_id (User ex_store) 11 = Some (mkUser 11 ''ann'' [] [12])
   \<and> (19::nat) \<noteq> 11 \<and> 19 \<notin> set (friends (mkUser 11 ''ann'' [] [12]))
   \<and> findById u_id (User ex_store) 19 = None
   \<and> fst (sendFriendRequest ex_store 11 (Some 19))
     = Inr (\<lparr>fr_id = 304, sender = 11, receiver = 19, status = Pending\<rparr>,
            ''Friend request sent'')"
proof -
  have f: "friends (mkUser 11 ''ann'' [] [12]) = [12]" by (simp add: mkUser_def)
  have i: "newObjectId (map fr_id (FriendRequest ex_store)) = 304"
    by (simp add: ex_store_def newObjectId_def)
  from send_friend_request_unchecked_receiver[of ex_store 11 "mkUser 11 ''ann'' [] [12]" 19]
  show ?thesis by (simp add: ex_find_user f i)
qed

subsection \<open>Ownership\<close>

text \<open>
  Claim C9, as amended. For an existing post and an actor who is not its author,
  \<open>updatePost\<close> and \<open>deletePost\<close> fail with status 401 and return the store as it was.
  For an existing comment and an actor who is not its author, \<open>updateComment\<close> does the
  same; \<open>deleteComment\<close> leaves the store as it was and fails with status 401 when the
  post named in its path exists and with status 404 when it does not (that handler looks
  up both the post and the comment before it compares the author).
\<close>

theorem non_author_unauthorized:
  "(findById p_id (Post s) i = Some p \<and> author p \<noteq> userId \<longrightarrow>
      updatePost s userId i body
        = (Inl (AppError ''You are not authorized to update this post'' 401), s)
      \<and> deletePost s userId i
        = (Inl (AppError ''You are not authorized to delete this post'' 401), s))
   \<and> (findById c_id (Comment s) j = Some c \<and> c_author c \<noteq> userId \<longrightarrow>
      updateComment s userId j cbody
        = (Inl (AppError ''You are not authorized to update this comment'' 401), s)
      \<and> snd (deleteComment s userId k j) = s
      \<and> (findById p_id (Post s) k = Some q \<longrightarrow>
            deleteComment s userId k j
              = (Inl (AppError ''You are not authorized to update this comment'' 401), s))
      \<and> (findById p_id (Post s) k = None \<longrightarrow>
            deleteComment s userId k j = (Inl (AppError ''Comment not found'' 404), s)))"
  by (auto simp: updatePost_def deletePost_def updateComment_def deleteComment_def Let_def
           split: option.splits)

lemma ex_find_post101:
  "findById p_id (Post ex_store) 101 = Some (mkPost 101 13 [12] [200, 201] 20)"
  by (simp add: ex_store_def findById_def mkPost_def)

lemma ex_find_comment200:
  "findById c_id (Comment ex_store) 200 = Some (mkComment 200 12 101 [] 21)"
  by (simp add: ex_store_def findById_def mkComment_def)

lemma ex_find_post999: "findById p_id (Post ex_store) 999 = None"
  by (simp add: ex_store_def findById_def mkPost_def)

text \<open>
  Claim C9 as stated fails for \<open>deleteComment\<close> when the post in its path does not
  exist: Ann, who did not write comment 200, gets the status 404, not 401.
\<close>

theorem delete_comment_not_found_counterexample:
  "findById c_id (Comment ex_store) 200 = Some (mkComment 200 12 101 [] 21)
   \<and> c_author (mkComment 200 12 101 [] 21) \<noteq> 11
   \<and> findById p_id (Post ex_store) 999 = None
   \<and> deleteComment ex_store 11 999 200 = (Inl (AppError ''Comment not found'' 404), ex_store)"
  by (simp add: deleteComment_def Let_def ex_find_comment200 ex_find_post999 mkComment_def)

theorem non_author_unauthorized_witness:
  "findById p_id (Post ex_store) 100 = Some (mkPost 100 12 [11] [] 10)
   \<and> author (mkPost 100 12 [11] [] 10) \<noteq> 11
   \<and> findById c_id (Comment ex_store) 200 = Some (mkComment 200 12 101 [] 21)
   \<and> c_author (mkComment 200 12 101 [] 21) \<noteq> 11
   \<and> findById p_id (Post ex_store) 101 = Some (mkPost 101 13 [12] [200, 201] 20)
   \<and> updatePost ex_store 11 100 (\<lambda>p. Inr (p\<lparr>title := ''mine now''\<rparr>))
       = (Inl (AppError ''You are not authorized to update this post'' 401), ex_store)
   \<and> deletePost ex_store 11 100
       = (Inl (AppError ''You are not authorized to delete this post'' 401), ex_store)
   \<and> updateComment ex_store 11 200 (\<lambda>c. Inr (c\<lparr>c_content := ''edited''\<rparr>))
       = (Inl (AppError ''You are not authorized to update this comment'' 401), ex_store)
   \<and> deleteComment ex_store 11 101 200
       = (Inl (AppError ''You are not authorized to update this comment'' 401), ex_store)
   \<and> findById p_id (Post ex_store) 999 = None
   \<and> snd (deleteComment ex_store 11 999 200) = ex_store"
proof -
  have a: "author (mkPost 100 12 [11] [] 10) \<noteq> 11"
    and b: "c_author (mkComment 200 12 101 [] 21) \<noteq> 11"
    by (simp_all add: mkPost_def mkComment_def)
  from non_author_unauthorized[of ex_store 100 "mkPost 100 12 [11] [] 10" 11
         "\<lambda>p. Inr (p\<lparr>title := ''mine now''\<rparr>)" 200 "mkComment 200 12 101 [] 21"
         "\<lambda>c. Inr (c\<lparr>c_content := ''edited''\<rparr>)" 101 "mkPost 101 13 [12] [200, 201] 20"]
       non_author_unauthorized[of ex_store 100 "mkPost 100 12 [11] [] 10" 11
         "\<lambda>p. Inr (p\<lparr>title := ''mine now''\<rparr>)" 200 "mkComment 200 12 101 [] 21"
         "\<lambda>c. Inr (c\<lparr>c_content := ''edited''\<rparr>)" 999]
  show ?thesis
    using a b ex_find_post100 ex_find_comment200 ex_find_post101 ex_find_post999 by simp
qed

subsection \<open>Account deletion\<close>

lemma deleteUser_found:
  assumes "findById u_id (User s) i = Some u"
  shows "deleteUser s i i =
    (Inr ''User deleted successfully'',
     \<lparr>User = updateMany (\<lambda>w. w\<lparr>friends := pull i (friends w)\<rparr>)
               (deleteOne (\<lambda>d. u_id d = i) (User s)),
      Post = updateMany (\<lambda>p. p\<lparr>likedBy := pull i (likedBy p)\<rparr>)
               (deleteMany (\<lambda>p. author p = i) (Post s)),
      Comment = deleteMany (\<lambda>c. c_author c = i) (Comment s),
      FriendRequest = deleteMany (\<lambda>r. sender r = i \<or> receiver r = i) (FriendRequest s)\<rparr>)"
  using assms findById_key[OF assms]
  by (simp add: deleteUser_def findByIdAndDelete_def Let_def)

text \<open>
  Claim C8. When a user deletes the own account \<open>i\<close>, the call succeeds and afterwards
  the posts are the former posts not written by \<open>i\<close>, each with \<open>i\<close> pulled from its
  liked-by list; the users are the remaining users with \<open>i\<close> pulled from their friends;
  the friend requests are those naming \<open>i\<close> neither as sender nor as receiver; the
  comments are those not written by \<open>i\<close>. So no post or comment of \<open>i\<close>, no like of
  \<open>i\<close> on a post, no friendship with \<open>i\<close> and no request naming \<open>i\<close> is left.
\<close>

theorem delete_user_cascade:
  assumes "findById u_id (User s) i = Some u"
  shows "fst (deleteUser s i i) = Inr ''User deleted successfully''
    \<and> Post (snd (deleteUser s i i))
        = map (\<lambda>p. p\<lparr>likedBy := pull i (likedBy p)\<rparr>) (filter (\<lambda>p. author p \<noteq> i) (Post s))
    \<and> User (snd (deleteUser s i i))
        = map (\<lambda>w. w\<lparr>friends := pull i (friends w)\<rparr>) (deleteOne (\<lambda>d. u_id d = i) (User s))
    \<and> FriendRequest (snd (deleteUser s i i))
        = filter (\<lambda>r. sender r \<noteq> i \<and> receiver r \<noteq> i) (FriendRequest s)
    \<and> Comment (snd (deleteUser s i i)) = filter (\<lambda>c. c_author c \<noteq> i) (Comment s)
    \<and> (\<forall>p \<in> set (Post (snd (deleteUser s i i))). author p \<noteq> i \<and> i \<notin> set (likedBy p))
    \<and> (\<forall>w \<in> set (User (snd (deleteUser s i i))). i \<notin> set (friends w))
    \<and> (\<forall>r \<in> set (FriendRequest (snd (deleteUser s i i))). sender r \<noteq> i \<and> receiver r \<noteq> i)
    \<and> (\<forall>c \<in> set (Comment (snd (deleteUser s i i))). c_author c \<noteq> i)"
  by (auto simp: deleteUser_found[OF assms] updateMany_def deleteMany_def set_pull)

theorem delete_user_cascade_witness:
  "findById u_id (User ex_store) 12 = Some (mkUser 12 ''bob'' [100] [11])
   \<and> fst (deleteUser ex_store 12 12) = Inr ''User deleted successfully''
   \<and> Post (snd (deleteUser ex_store 12 12))
       = [mkPost 101 13 [] [200, 201] 20, mkPost 102 13 [] [] 30, mkPost 103 13 [13] [202] 40]
   \<and> User (snd (deleteUser ex_store 12 12))
       = [mkUser 11 ''ann'' [] [], mkUser 13 ''cat'' [101, 102, 103] []]
   \<and> FriendRequest (snd (deleteUser ex_store 12 12))
       = [\<lparr>fr_id = 300, sender = 13, receiver = 11, status = Pending\<rparr>,
          \<lparr>fr_id = 301, sender = 11, receiver = 13, status = Rejected\<rparr>,
          \<lparr>fr_id = 302, sender = 11, receiver = 19, status = Pending\<rparr>]
   \<and> Comment (snd (deleteUser ex_store 12 12)) = [mkComment 201 13 101 [12] 22]"
proof -
  have P: "Post ex_store = [mkPost 100 12 [11] [] 10, mkPost 101 13 [12] [200, 201] 20,
              mkPost 102 13 [] [] 30, mkPost 103 13 [13, 12] [202] 40]"
    and U: "User ex_store = [mkUser 11 ''ann'' [] [12], mkUser 12 ''bob'' [100] [11],
              mkUser 13 ''cat'' [101, 102, 103] []]"
    and C: "Comment ex_store = [mkComment 200 12 101 [] 21, mkComment 201 13 101 [12] 22,
                 mkComment 202 12 103 [] 41]"
    and F: "FriendRequest ex_store =
        [\<lparr>fr_id = 300, sender = 13, receiver = 11, status = Pending\<rparr>,
         \<lparr>fr_id = 301, sender = 11, receiver = 13, status = Rejected\<rparr>,
         \<lparr>fr_id = 302, sender = 11, receiver = 19, status = Pending\<rparr>,
         \<lparr>fr_id = 303, sender = 12, receiver = 13, status = Accepted\<rparr>]"
    by (simp_all add: ex_store_def)
  from delete_user_cascade[OF ex_find_user(2)] ex_find_user(2)
  show ?thesis
    by (simp add: P U C F mkPost_def mkUser_def mkComment_def pull_def)
qed

subsection \<open>Pagination\<close>



lemma set_sortByCreatedAtDesc: "set (sortByCreatedAtDesc key ds) = set ds"
  by (simp add: sortByCreatedAtDesc_def)

lemma length_sortByCreatedAtDesc: "length (sortByCreatedAtDesc key ds) = length ds"
  by (simp add: sortByCreatedAtDesc_def)


lemma sorted_sortByCreatedAtDesc:
  "sorted_wrt (\<lambda>a b. key b \<le> key a) (sortByCreatedAtDesc key ds)"
proof -
  have "sorted (map (\<lambda>d. - key d) (sort_key (\<lambda>d. - key d) ds))"
    by (rule sorted_sort_key)
  then show ?thesis
    by (simp add: sortByCreatedAtDesc_def sorted_map)
qed






subsection \<open>The grouping stage\<close>











subsection \<open>Feeds\<close>


text \<open>
  Claim C5, on the code: for a requester without a User document (19 in the example
  store) each of the three feed handlers ends with a ReferenceError, which the error
  middleware answers with status 500, not with the 404 of a not-found error.
\<close>

theorem feed_missing_requester_reference_error:
  "findById u_id (User ex_store) 19 = None
   \<and> getFeed ex_store 19 \<lparr>q_page = Some 1, q_limit = Some 10\<rparr>
       = Inl (ReferenceError ''AppError is not defined'')
   \<and> getFriendCommentFeed ex_store 19 \<lparr>q_page = Some 1, q_limit = Some 10\<rparr>
       = Inl (ReferenceError ''AppError is not defined'')
   \<and> getFriendLikedPosts ex_store 19 \<lparr>q_page = Some 1, q_limit = Some 10\<rparr>
       = Inl (ReferenceError ''AppError is not defined'')
   \<and> errStatus (ReferenceError ''AppError is not defined'') = 500"
  by (simp add: ex_find_user getFeed_def getFriendCommentFeed_def getFriendLikedPosts_def
        newAppError_unbound_def Let_def)

lemma friendLikedQuery_iff:
  "friendLikedQuery fs p \<longleftrightarrow> set (likedBy p) \<inter> set fs \<noteq> {} \<and> author p \<notin> set fs"
  by (auto simp: friendLikedQuery_def list_ex_iff)

text \<open>
  Claim C6. For an existing requester the friend-liked feed pages through \<open>full\<close>, the
  posts whose liked-by set meets the requester's friends and whose author is not among
  them, newest first; the count is their number, and the first page holds all of them
  when the limit allows.
\<close>

theorem friend_liked_feed:
  assumes "findById u_id (User s) userId = Some u"
  shows "\<exists>env full.
      getFriendLikedPosts s userId q = Inr env
    \<and> full = sortByCreatedAtDesc createdAt
              (filter (\<lambda>p. set (likedBy p) \<inter> set (friends u) \<noteq> {}
                         \<and> author p \<notin> set (friends u)) (Post s))
    \<and> set full = {p \<in> set (Post s). set (likedBy p) \<inter> set (friends u) \<noteq> {}
                                    \<and> author p \<notin> set (friends u)}
    \<and> sorted_wrt (\<lambda>a b. createdAt b \<le> createdAt a) full
    \<and> count env = length full
    \<and> data env = map (populateAuthor (User s))
          (take (orDefault (q_limit q) 10)
             (drop ((orDefault (q_page q) 1 - 1) * orDefault (q_limit q) 10) full))
    \<and> (orDefault (q_page q) 1 = 1 \<and> length full \<le> orDefault (q_limit q) 10 \<longrightarrow>
          data env = map (populateAuthor (User s)) full)"
proof -
  have q: "friendLikedQuery (friends u) = (\<lambda>p. set (likedBy p) \<inter> set (friends u) \<noteq> {}
                         \<and> author p \<notin> set (friends u))"
    by (rule ext) (rule friendLikedQuery_iff)
  show ?thesis
    using assms
    by (simp add: getFriendLikedPosts_def Let_def q length_sortByCreatedAtDesc
          set_sortByCreatedAtDesc sorted_sortByCreatedAtDesc)
qed


lemma ex_collections:
  "Post ex_store = [mkPost 100 12 [11] [] 10, mkPost 101 13 [12] [200, 201] 20,
              mkPost 102 13 [] [] 30, mkPost 103 13 [13, 12] [202] 40]"
  "User ex_store = [mkUser 11 ''ann'' [] [12], mkUser 12 ''bob'' [100] [11],
              mkUser 13 ''cat'' [101, 102, 103] []]"
  "Comment ex_store = [mkComment 200 12 101 [] 21, mkComment 201 13 101 [12] 22,
                 mkComment 202 12 103 [] 41]"
  by (simp_all add: ex_store_def)







lemma ex_friends_ann: "friends (mkUser 11 ''ann'' [] [12]) = [12]"
  by (simp add: mkUser_def)











theorem friend_liked_feed_witness:
  "findById u_id (User ex_store) 11 = Some (mkUser 11 ''ann'' [] [12])
   \<and> (\<exists>env. getFriendLikedPosts ex_store 11 \<lparr>q_page = None, q_limit = None\<rparr> = Inr env
          \<and> map fp_id (data env) = [103, 101] \<and> map fp_createdAt (data env) = [40, 20]
          \<and> count env = 2)"
proof -
  let ?q = "\<lparr>q_page = None, q_limit = None\<rparr>"
  have f: "sortByCreatedAtDesc createdAt
              (filter (\<lambda>p. set (likedBy p) \<inter> set [12] \<noteq> {} \<and> author p \<notin> set [12])
                 (Post ex_store))
     = [mkPost 103 13 [13, 12] [202] 40, mkPost 101 13 [12] [200, 201] 20]"
    by (simp add: ex_collections sortByCreatedAtDesc_def mkPost_def)
  from friend_liked_feed[OF ex_find_user(1), of ?q, unfolded ex_friends_ann f]
  obtain env where e: "getFriendLikedPosts ex_store 11 ?q = Inr env"
    and c: "count env = length [mkPost 103 13 [13, 12] [202] 40, mkPost 101 13 [12] [200, 201] 20]"
    and d: "data env = map (populateAuthor (User ex_store))
          (take (orDefault (q_limit ?q) 10)
             (drop ((orDefault (q_page ?q) 1 - 1) * orDefault (q_limit ?q) 10)
                [mkPost 103 13 [13, 12] [202] 40, mkPost 101 13 [12] [200, 201] 20]))"
    by blast
  have "map fp_id (data env) = [103, 101] \<and> map fp_createdAt (data env) = [40, 20]
          \<and> count env = 2"
    using c d by (simp add: orDefault_def populateAuthor_def mkPost_def)
  with e have "\<exists>env. getFriendLikedPosts ex_store 11 ?q = Inr env
          \<and> map fp_id (data env) = [103, 101] \<and> map fp_createdAt (data env) = [40, 20]
          \<and> count env = 2"
    by (intro exI[of _ env] conjI) simp_all
  then show ?thesis by (intro conjI ex_find_user(1))
qed

subsection \<open>The friend-comment feed\<close>
















end
